theory Spec2Isabelle
  imports Main
begin

unbundle bit_operations_syntax

section \<open>Text primitives of the Python runtime\<close>

text \<open>
  The delegation files of the registries are ASCII text. Python \<open>str\<close> values are
  modelled as \<open>string\<close>, one \<open>char\<close> per code point, and the functions of this
  section follow CPython 3.11 on ASCII text. Python \<open>int\<close> is \<open>int\<close>.
\<close>

definition is_space :: "char \<Rightarrow> bool" where
  \<comment> \<open>\<open>str.isspace\<close> on ASCII: tab, newline, VT, FF, CR, the separators 0x1C to 0x1F, space\<close>
  "is_space c = ((9::nat) \<le> of_char c \<and> (of_char c :: nat) \<le> 13
                 \<or> (28::nat) \<le> of_char c \<and> (of_char c :: nat) \<le> 32)"

definition is_digit :: "char \<Rightarrow> bool" where
  "is_digit c = ((48::nat) \<le> of_char c \<and> (of_char c :: nat) \<le> 57)"

definition digit_val :: "char \<Rightarrow> int" where
  "digit_val c = int (of_char c) - 48"

definition py_strip :: "string \<Rightarrow> string" where
  \<comment> \<open>\<open>s.strip()\<close>\<close>
  "py_strip s = rev (dropWhile is_space (rev (dropWhile is_space s)))"

fun py_split :: "char \<Rightarrow> string \<Rightarrow> string list" where
  \<comment> \<open>\<open>s.split(sep)\<close> for a one-character separator: always at least one field\<close>
  "py_split sep [] = [[]]"
| "py_split sep (c # cs) =
     (if c = sep then [] # py_split sep cs
      else (case py_split sep cs of
              [] \<Rightarrow> [[c]]
            | w # ws \<Rightarrow> (c # w) # ws))"

fun py_startswith :: "string \<Rightarrow> string \<Rightarrow> bool" where
  \<comment> \<open>\<open>s.startswith(p)\<close>\<close>
  "py_startswith s [] = True"
| "py_startswith [] (p # ps) = False"
| "py_startswith (c # cs) (p # ps) = (c = p \<and> py_startswith cs ps)"

definition upper_char :: "char \<Rightarrow> char" where
  "upper_char c =
     (if (97::nat) \<le> of_char c \<and> (of_char c :: nat) \<le> 122
      then char_of (of_char c - (32::nat)) else c)"

definition py_upper :: "string \<Rightarrow> string" where
  \<comment> \<open>\<open>s.upper()\<close>\<close>
  "py_upper s = map upper_char s"

fun int_digits :: "string \<Rightarrow> string option" where
  \<comment> \<open>the digits of a decimal literal body: digits, with single underscores between digits only\<close>
  "int_digits [] = None"
| "int_digits [c] = (if is_digit c then Some [c] else None)"
| "int_digits (c # d # cs) =
     (if is_digit c then
        (if d = CHR ''_'' then map_option ((#) c) (int_digits cs)
         else map_option ((#) c) (int_digits (d # cs)))
      else None)"

definition int_max_str_digits :: nat where
  \<comment> \<open>the interpreter's default limit on the number of digits \<open>int()\<close> converts\<close>
  "int_max_str_digits = 4300"

definition is_c_space :: "char \<Rightarrow> bool" where
  \<comment> \<open>C's \<open>isspace\<close>, which \<open>int()\<close> uses on ASCII text: tab, newline, VT, FF, CR, space\<close>
  "is_c_space c = ((9::nat) \<le> of_char c \<and> (of_char c :: nat) \<le> 13 \<or> c = CHR '' '')"

definition py_int :: "string \<Rightarrow> int option" where
  \<comment> \<open>\<open>int(s)\<close>; \<open>None\<close> is ValueError\<close>
  "py_int s =
     (let t = rev (dropWhile is_c_space (rev (dropWhile is_c_space s)));
          (neg, body) = (case t of
                           c # cs \<Rightarrow> if c = CHR ''-'' then (True, cs)
                                     else if c = CHR ''+'' then (False, cs)
                                     else (False, t)
                         | [] \<Rightarrow> (False, t))
      in case int_digits body of
           None \<Rightarrow> None
         | Some ds \<Rightarrow>
             if length ds > int_max_str_digits then None
             else let n = foldl (\<lambda>a c. 10 * a + digit_val c) 0 ds
                  in Some (if neg then - n else n))"

section \<open>\<open>datetime.strptime(date, '%Y%m%d')\<close>\<close>

text \<open>
  The format is compiled to the regular expression
  \<^verbatim>\<open>(?P<Y>\d\d\d\d)(?P<m>1[0-2]|0[1-9]|[1-9])(?P<d>3[0-1]|[1-2]\d|0[1-9]|[1-9]| [1-9])\<close>,
  tried at the start of the text with the alternatives in this order; the first match is
  taken, text left over after it is an error, and the fields must then form a date of
  the calendar. Each matcher returns its candidates in the order of the alternatives,
  each with the value read and the text that remains.
\<close>

definition match_Y :: "string \<Rightarrow> (int \<times> string) list" where
  "match_Y s =
     (case s of
        a # b # c # d # rest \<Rightarrow>
          if is_digit a \<and> is_digit b \<and> is_digit c \<and> is_digit d
          then [(1000 * digit_val a + 100 * digit_val b + 10 * digit_val c + digit_val d, rest)]
          else []
      | _ \<Rightarrow> [])"

definition match_m :: "string \<Rightarrow> (int \<times> string) list" where
  "match_m s =
     (case s of
        a # b # rest \<Rightarrow>
          (if a = CHR ''1'' \<and> b \<in> set ''012'' then [(10 + digit_val b, rest)] else []) @
          (if a = CHR ''0'' \<and> b \<in> set ''123456789'' then [(digit_val b, rest)] else []) @
          (if a \<in> set ''123456789'' then [(digit_val a, b # rest)] else [])
      | [a] \<Rightarrow> (if a \<in> set ''123456789'' then [(digit_val a, [])] else [])
      | [] \<Rightarrow> [])"

definition match_d :: "string \<Rightarrow> (int \<times> string) list" where
  "match_d s =
     (case s of
        a # b # rest \<Rightarrow>
          (if a = CHR ''3'' \<and> b \<in> set ''01'' then [(30 + digit_val b, rest)] else []) @
          (if a \<in> set ''12'' \<and> is_digit b then [(10 * digit_val a + digit_val b, rest)] else []) @
          (if a = CHR ''0'' \<and> b \<in> set ''123456789'' then [(digit_val b, rest)] else []) @
          (if a \<in> set ''123456789'' then [(digit_val a, b # rest)] else []) @
          (if a = CHR '' '' \<and> b \<in> set ''123456789'' then [(digit_val b, rest)] else [])
      | [a] \<Rightarrow> (if a \<in> set ''123456789'' then [(digit_val a, [])] else [])
      | [] \<Rightarrow> [])"

definition is_leap :: "int \<Rightarrow> bool" where
  "is_leap y = (y mod 4 = 0 \<and> (y mod 100 \<noteq> 0 \<or> y mod 400 = 0))"

definition days_in_month :: "int \<Rightarrow> int \<Rightarrow> int" where
  "days_in_month y m =
     (if m = 2 then (if is_leap y then 29 else 28)
      else if m \<in> {4, 6, 9, 11} then 30 else 31)"

definition strptime_Ymd :: "string \<Rightarrow> (int \<times> int \<times> int) option" where
  \<comment> \<open>\<open>None\<close> is ValueError\<close>
  "strptime_Ymd s =
     (case concat (map (\<lambda>(y, r0).
             concat (map (\<lambda>(m, r1).
               map (\<lambda>(d, r2). (y, m, d, r2)) (match_d r1)) (match_m r0))) (match_Y s)) of
        [] \<Rightarrow> None
      | (y, m, d, rest) # _ \<Rightarrow>
          if rest \<noteq> [] then None
          else if 1 \<le> y \<and> y \<le> 9999 \<and> 1 \<le> m \<and> m \<le> 12 \<and> 1 \<le> d \<and> d \<le> days_in_month y m
          then Some (y, m, d) else None)"

section \<open>Exceptions\<close>

datatype error = ValueError | AddressValueError | NetmaskValueError | OverflowError

fun is_ValueError :: "error \<Rightarrow> bool" where
  \<comment> \<open>what \<open>except ValueError\<close> catches: the two \<open>ipaddress\<close> errors are its subclasses\<close>
  "is_ValueError ValueError = True"
| "is_ValueError AddressValueError = True"
| "is_ValueError NetmaskValueError = True"
| "is_ValueError OverflowError = False"

section \<open>Printing numbers\<close>

definition digit_char :: "int \<Rightarrow> char" where
  "digit_char n = (if n < 10 then char_of (48 + n) else char_of (87 + n))"

function str_base :: "int \<Rightarrow> int \<Rightarrow> string" where
  \<comment> \<open>the digits of \<open>n\<close> in base \<open>b\<close>, most significant first, for \<open>b\<close> from 2 to 16\<close>
  "str_base b n =
     (if n < b \<or> b < 2 then [digit_char n]
      else str_base b (n div b) @ [digit_char (n mod b)])"
  by pat_completeness auto
termination
proof (relation "measure (\<lambda>(b, n). nat n)")
  show "wf (measure (\<lambda>(b, n). nat n))" by simp
next
  fix b n :: int
  assume a: "\<not> (n < b \<or> b < 2)"
  then have "0 < n" and "1 < b" by auto
  then have "n div b < n" by (rule int_div_less_self)
  moreover from a have "0 < n" by auto
  ultimately show "((b, n div b), (b, n)) \<in> measure (\<lambda>(b, n). nat n)" by simp
qed

declare str_base.simps [simp del]

definition py_str_int :: "int \<Rightarrow> string" where
  \<comment> \<open>\<open>str(n)\<close>\<close>
  "py_str_int n = (if n < 0 then CHR ''-'' # str_base 10 (- n) else str_base 10 n)"

definition hex_str :: "int \<Rightarrow> string" where
  \<comment> \<open>\<open>'%x' % n\<close> for \<open>n\<close> that is not negative\<close>
  "hex_str n = str_base 16 n"

fun py_join :: "string \<Rightarrow> string list \<Rightarrow> string" where
  \<comment> \<open>\<open>sep.join(xs)\<close>\<close>
  "py_join sep [] = []"
| "py_join sep [x] = x"
| "py_join sep (x # y # ys) = x @ sep @ py_join sep (y # ys)"

section \<open>The standard library's \<open>ipaddress\<close> module\<close>

subsection \<open>IPv4 addresses\<close>

definition parse_octet :: "string \<Rightarrow> int option" where
  \<comment> \<open>\<open>_parse_octet\<close>; \<open>None\<close> is ValueError\<close>
  "parse_octet octet_str =
     (if octet_str = [] then None
      else if \<not> list_all is_digit octet_str then None
      else if length octet_str > 3 then None
      else if octet_str \<noteq> ''0'' \<and> hd octet_str = CHR ''0'' then None
      else let octet_int = foldl (\<lambda>a c. 10 * a + digit_val c) 0 octet_str
           in if octet_int > 255 then None else Some octet_int)"

definition ipv4_int_from_string :: "string \<Rightarrow> int option" where
  \<comment> \<open>\<open>_BaseV4._ip_int_from_string\<close>; \<open>None\<close> is AddressValueError\<close>
  "ipv4_int_from_string ip_str =
     (if ip_str = [] then None
      else let octets = py_split CHR ''.'' ip_str in
        if length octets \<noteq> 4 then None
        else (case map parse_octet octets of
                [Some a, Some b, Some c, Some d] \<Rightarrow>
                  Some (push_bit 24 a OR push_bit 16 b OR push_bit 8 c OR d)
              | _ \<Rightarrow> None))"

definition IPv4Address :: "string \<Rightarrow> error + int" where
  \<comment> \<open>\<open>IPv4Address(s)\<close> for a text \<open>s\<close>: the address as an integer\<close>
  "IPv4Address addr_str =
     (if CHR ''/'' \<in> set addr_str then Inl AddressValueError
      else (case ipv4_int_from_string addr_str of
              None \<Rightarrow> Inl AddressValueError
            | Some ip \<Rightarrow> Inr ip))"

definition str_IPv4Address :: "int \<Rightarrow> string" where
  \<comment> \<open>\<open>str\<close> of an IPv4 address: its four bytes in decimal, joined by dots\<close>
  "str_IPv4Address ip =
     py_join ''.'' (map (\<lambda>i. py_str_int (drop_bit (8 * (3 - i)) ip AND 255)) [0..<4])"

subsection \<open>IPv6 addresses\<close>

definition is_hex_digit :: "char \<Rightarrow> bool" where
  "is_hex_digit c = (c \<in> set ''0123456789ABCDEFabcdef'')"

definition hex_val :: "char \<Rightarrow> int" where
  "hex_val c =
     (if is_digit c then int (of_char c) - 48
      else if (97::nat) \<le> of_char c then int (of_char c) - 87
      else int (of_char c) - 55)"

definition parse_hextet :: "string \<Rightarrow> int option" where
  \<comment> \<open>\<open>_parse_hextet\<close>; the empty text passes the two tests and fails in \<open>int('', 16)\<close>\<close>
  "parse_hextet hextet_str =
     (if \<not> list_all is_hex_digit hextet_str then None
      else if length hextet_str > 4 then None
      else if hextet_str = [] then None
      else Some (foldl (\<lambda>a c. 16 * a + hex_val c) 0 hextet_str))"

fun shift_in_hextets :: "int \<Rightarrow> string list \<Rightarrow> int option" where
  \<comment> \<open>\<open>for h in hextets: ip_int <<= 16; ip_int |= parse_hextet(h)\<close>\<close>
  "shift_in_hextets ip_int [] = Some ip_int"
| "shift_in_hextets ip_int (h # hs) =
     (case parse_hextet h of
        None \<Rightarrow> None
      | Some v \<Rightarrow> shift_in_hextets (push_bit 16 ip_int OR v) hs)"

definition ipv6_int_from_string :: "string \<Rightarrow> int option" where
  \<comment> \<open>\<open>_BaseV6._ip_int_from_string\<close>; \<open>None\<close> is AddressValueError\<close>
  "ipv6_int_from_string ip_str =
     (if ip_str = [] then None
      else let parts = py_split CHR '':'' ip_str in
        if length parts < 3 then None
        else
          (case (if CHR ''.'' \<in> set (last parts)
                 then (case IPv4Address (last parts) of
                         Inl _ \<Rightarrow> None
                       | Inr ipv4_int \<Rightarrow>
                           Some (butlast parts @
                                 [hex_str (drop_bit 16 ipv4_int AND 0xFFFF),
                                  hex_str (ipv4_int AND 0xFFFF)]))
                 else Some parts) of
             None \<Rightarrow> None
           | Some parts \<Rightarrow>
               if length parts > 9 then None
               else
                 (case filter (\<lambda>i. parts ! i = []) [1 ..< length parts - 1] of
                    [] \<Rightarrow>
                      if length parts \<noteq> 8 then None
                      else if parts ! 0 = [] then None
                      else if last parts = [] then None
                      else shift_in_hextets 0 parts
                  | [skip_index] \<Rightarrow>
                      let parts_hi = skip_index;
                          parts_lo = length parts - skip_index - 1;
                          hi_empty = (parts ! 0 = []);
                          lo_empty = (last parts = []);
                          parts_hi = (if hi_empty then parts_hi - 1 else parts_hi);
                          parts_lo = (if lo_empty then parts_lo - 1 else parts_lo)
                      in
                        if hi_empty \<and> parts_hi \<noteq> 0 then None
                        else if lo_empty \<and> parts_lo \<noteq> 0 then None
                        else if parts_hi + parts_lo > 7 then None
                        else
                          (case shift_in_hextets 0 (take parts_hi parts) of
                             None \<Rightarrow> None
                           | Some ip_int \<Rightarrow>
                               shift_in_hextets
                                 (push_bit (16 * (8 - (parts_hi + parts_lo))) ip_int)
                                 (drop (length parts - parts_lo) parts))
                  | _ \<Rightarrow> None)))"

definition split_scope_id :: "string \<Rightarrow> (string \<times> string option) option" where
  \<comment> \<open>\<open>_split_scope_id\<close>, by \<open>ip_str.partition('%')\<close>; \<open>None\<close> is AddressValueError\<close>
  "split_scope_id ip_str =
     (if CHR ''%'' \<notin> set ip_str then Some (ip_str, None)
      else let addr_str = takeWhile (\<lambda>c. c \<noteq> CHR ''%'') ip_str;
               scope_id = tl (dropWhile (\<lambda>c. c \<noteq> CHR ''%'') ip_str)
           in if scope_id = [] \<or> CHR ''%'' \<in> set scope_id then None
              else Some (addr_str, Some scope_id))"

definition IPv6Address :: "string \<Rightarrow> error + (int \<times> string option)" where
  \<comment> \<open>\<open>IPv6Address(s)\<close> for a text \<open>s\<close>: the address as an integer, and its scope id\<close>
  "IPv6Address addr_str =
     (if CHR ''/'' \<in> set addr_str then Inl AddressValueError
      else (case split_scope_id addr_str of
              None \<Rightarrow> Inl AddressValueError
            | Some (addr_part, scope_id) \<Rightarrow>
                (case ipv6_int_from_string addr_part of
                   None \<Rightarrow> Inl AddressValueError
                 | Some ip \<Rightarrow> Inr (ip, scope_id))))"

fun longest_zero_run ::
  "string list \<Rightarrow> int \<Rightarrow> int \<times> int \<times> int \<times> int \<Rightarrow> int \<times> int" where
  \<comment> \<open>the loop of \<open>_compress_hextets\<close> over \<open>enumerate(hextets)\<close>; the state is
      best start, best length, current start, current length\<close>
  "longest_zero_run [] index (best_start, best_len, dc_start, dc_len) = (best_start, best_len)"
| "longest_zero_run (hextet # hextets) index (best_start, best_len, dc_start, dc_len) =
     (if hextet = ''0'' then
        let dc_len = dc_len + 1;
            dc_start = (if dc_start = - 1 then index else dc_start)
        in if dc_len > best_len
           then longest_zero_run hextets (index + 1) (dc_start, dc_len, dc_start, dc_len)
           else longest_zero_run hextets (index + 1) (best_start, best_len, dc_start, dc_len)
      else longest_zero_run hextets (index + 1) (best_start, best_len, - 1, 0))"

definition compress_hextets :: "string list \<Rightarrow> string list" where
  \<comment> \<open>\<open>_compress_hextets\<close>\<close>
  "compress_hextets hextets =
     (let (best_start, best_len) = longest_zero_run hextets 0 (- 1, 0, - 1, 0) in
      if best_len > 1 then
        let best_end = best_start + best_len;
            hextets = (if best_end = int (length hextets) then hextets @ [[]] else hextets);
            hextets = take (nat best_start) hextets @ [[]] @ drop (nat best_end) hextets
        in if best_start = 0 then [] # hextets else hextets
      else hextets)"

definition str_IPv6Address :: "int \<times> string option \<Rightarrow> string" where
  \<comment> \<open>\<open>str\<close> of an IPv6 address: the compressed form, then \<open>%\<close> and the scope id if any\<close>
  "str_IPv6Address a =
     (case a of (ip, scope_id) \<Rightarrow>
        let hextets = map (\<lambda>i. hex_str (drop_bit (16 * (7 - i)) ip AND 0xFFFF)) [0..<8];
            ip_str = py_join '':'' (compress_hextets hextets)
        in (case scope_id of
              None \<Rightarrow> ip_str
            | Some sc \<Rightarrow> ip_str @ ''%'' @ sc))"

subsection \<open>IPv6 networks\<close>

definition IPV6_ALL_ONES :: int where
  "IPV6_ALL_ONES = 2 ^ 128 - 1"

definition prefix_from_prefix_string :: "string \<Rightarrow> int option" where
  \<comment> \<open>\<open>_prefix_from_prefix_string\<close> for IPv6; \<open>None\<close> is NetmaskValueError\<close>
  "prefix_from_prefix_string prefixlen_str =
     (if prefixlen_str = [] \<or> \<not> list_all is_digit prefixlen_str then None
      else (case py_int prefixlen_str of
              None \<Rightarrow> None
            | Some prefixlen \<Rightarrow>
                if 0 \<le> prefixlen \<and> prefixlen \<le> 128 then Some prefixlen else None))"

record ipv6_network =
  network_address :: "int \<times> string option"
  netmask :: int
  prefixlen :: int

definition IPv6Network :: "string \<Rightarrow> error + ipv6_network" where
  \<comment> \<open>\<open>IPv6Network(s, strict=False)\<close>: the text is split at \<open>/\<close>; without a mask the prefix
      length is 128; host bits are masked off, and the scope id goes with them\<close>
  "IPv6Network address =
     (case (case py_split CHR ''/'' address of
              [addr_str] \<Rightarrow> Some (addr_str, None)
            | [addr_str, mask_str] \<Rightarrow> Some (addr_str, Some mask_str)
            | _ \<Rightarrow> None) of
        None \<Rightarrow> Inl AddressValueError
      | Some (addr_str, mask_opt) \<Rightarrow>
          (case IPv6Address addr_str of
             Inl e \<Rightarrow> Inl e
           | Inr (packed, scope_id) \<Rightarrow>
               (case (case mask_opt of
                        None \<Rightarrow> Some 128
                      | Some mask_str \<Rightarrow> prefix_from_prefix_string mask_str) of
                  None \<Rightarrow> Inl NetmaskValueError
                | Some p \<Rightarrow>
                    let nm = IPV6_ALL_ONES XOR drop_bit (nat p) IPV6_ALL_ONES in
                    Inr \<lparr>network_address =
                           (if packed AND nm \<noteq> packed then (packed AND nm, None)
                            else (packed, scope_id)),
                         netmask = nm, prefixlen = p\<rparr>)))"

definition network_contains :: "ipv6_network \<Rightarrow> int \<times> string option \<Rightarrow> bool" where
  \<comment> \<open>\<open>other in network\<close> for an IPv6 address \<open>other\<close>\<close>
  "network_contains network other = (fst other AND netmask network = fst (network_address network))"

definition str_IPv6Network :: "ipv6_network \<Rightarrow> string" where
  \<comment> \<open>\<open>'%s/%d' % (network_address, prefixlen)\<close>\<close>
  "str_IPv6Network network =
     str_IPv6Address (network_address network) @ ''/'' @ py_str_int (prefixlen network)"

subsection \<open>\<open>ipaddress.ip_address\<close>\<close>

datatype ip_obj = V4 int | V6 "int \<times> string option"

definition ipaddress_ip_address :: "string \<Rightarrow> error + ip_obj" where
  "ipaddress_ip_address address =
     (case IPv4Address address of
        Inr ip \<Rightarrow> Inr (V4 ip)
      | Inl e \<Rightarrow>
          if e \<noteq> AddressValueError \<and> e \<noteq> NetmaskValueError then Inl e
          else (case IPv6Address address of
                  Inr a \<Rightarrow> Inr (V6 a)
                | Inl e' \<Rightarrow>
                    if e' \<noteq> AddressValueError \<and> e' \<noteq> NetmaskValueError then Inl e'
                    else Inl ValueError))"

section \<open>The record normalizer: \<open>parse_rir_line\<close>\<close>

record entry =
  registry :: string
  country_code :: string
  type_field :: string
  start :: string
  value_field :: string
  date :: string
  status :: string

text \<open>
  The dictionary \<open>parse_rir_line\<close> returns; its keys \<open>type\<close> and \<open>value\<close> are the fields
  \<open>type_field\<close> and \<open>value_field\<close>.
\<close>

definition parse_rir_line :: "string \<Rightarrow> entry option" where
  "parse_rir_line line =
     (if py_startswith line ''#'' \<or> py_strip line = [] then None
      else
        let fields = py_split CHR ''|'' (py_strip line) in
        if length fields < 7 then None
        else
          (case take 7 fields of
             [registry', cc, type', start', value', date', status'] \<Rightarrow>
               if cc = ''*'' \<or> length cc \<noteq> 2 then None
               else if type' \<notin> set [''ipv4'', ''ipv6''] then None
               else
                 let date'' = (if date' \<noteq> [] \<and> length date' = 8
                               then (case strptime_Ymd date' of
                                       Some _ \<Rightarrow> date'
                                     | None \<Rightarrow> [])
                               else date')
                 in Some \<lparr>registry = registry', country_code = py_upper cc,
                           type_field = type', start = start', value_field = value',
                           date = date'', status = status'\<rparr>
           | _ \<Rightarrow> None))"

section \<open>Processing one registry file: \<open>process_rir_data\<close>\<close>

record rir_entry = entry +
  rir :: string

fun process_lines :: "string \<Rightarrow> string list \<Rightarrow> rir_entry list" where
  \<comment> \<open>the loop over the lines: an accepted entry gets the key \<open>rir\<close> and is appended\<close>
  "process_lines rir_name [] = []"
| "process_lines rir_name (line # lines) =
     (case parse_rir_line line of
        None \<Rightarrow> process_lines rir_name lines
      | Some e \<Rightarrow>
          \<lparr>registry = registry e, country_code = country_code e, type_field = type_field e,
           start = start e, value_field = value_field e, date = date e, status = status e,
           rir = rir_name\<rparr> # process_lines rir_name lines)"

definition process_rir_data :: "string \<Rightarrow> string \<Rightarrow> rir_entry list" where
  "process_rir_data data rir_name = process_lines rir_name (py_split CHR 0x0A data)"

section \<open>The database\<close>

text \<open>
  The SQLite tables \<open>ipv4_ranges\<close> and \<open>ipv6_ranges\<close> are lists of rows in the order of
  insertion, each row the tuple the code inserts; the \<open>id\<close> column, which no query
  reads, is left out. The table \<open>metadata\<close> is a list of key and value, without the
  column \<open>updated_at\<close> that SQLite fills in.
\<close>

type_synonym ipv4_row = "int \<times> int \<times> string \<times> string \<times> string \<times> string"
  \<comment> \<open>\<open>(start_ip, end_ip, country_code, rir, date_allocated, status)\<close>\<close>

type_synonym ipv6_row = "string \<times> int \<times> string \<times> string \<times> string \<times> string"
  \<comment> \<open>\<open>(network, prefix_length, country_code, rir, date_allocated, status)\<close>\<close>

record db =
  ipv4_ranges :: "ipv4_row list"
  ipv6_ranges :: "ipv6_row list"
  metadata :: "(string \<times> string) list"

definition setup_database :: "db \<Rightarrow> db" where
  \<comment> \<open>\<open>CREATE TABLE IF NOT EXISTS\<close> and \<open>CREATE INDEX IF NOT EXISTS\<close> leave the rows as they are\<close>
  "setup_database d = d"

definition update_metadata :: "db \<Rightarrow> string \<Rightarrow> string \<Rightarrow> db" where
  \<comment> \<open>\<open>INSERT OR REPLACE\<close> on the primary key \<open>key\<close>\<close>
  "update_metadata d k v = d\<lparr>metadata := filter (\<lambda>(k', _). k' \<noteq> k) (metadata d) @ [(k, v)]\<rparr>"

definition sqlite_integer :: "int \<Rightarrow> bool" where
  \<comment> \<open>the integers the \<open>sqlite3\<close> module binds to a parameter: those of 64 bits, signed;
      any other raises OverflowError\<close>
  "sqlite_integer n = (- (2 ^ 63) \<le> n \<and> n < 2 ^ 63)"

section \<open>The range canonicalizer: \<open>insert_entries_to_db\<close>\<close>

definition ip_to_int :: "string \<Rightarrow> error + int" where
  "ip_to_int ip_str = IPv4Address ip_str"

fun prepare_entries ::
  "rir_entry list \<Rightarrow> ipv4_row list \<Rightarrow> ipv6_row list \<Rightarrow> ipv4_row list \<times> ipv6_row list" where
  \<comment> \<open>the loop over the entries, with the lists \<open>ipv4_entries\<close> and \<open>ipv6_entries\<close> it
      appends to; an exception it catches leaves both lists as they are\<close>
  "prepare_entries [] ipv4_entries ipv6_entries = (ipv4_entries, ipv6_entries)"
| "prepare_entries (e # entries) ipv4_entries ipv6_entries =
     (if type_field e = ''ipv4'' then
        (case py_int (value_field e) of
           None \<Rightarrow> prepare_entries entries ipv4_entries ipv6_entries
         | Some num_ips \<Rightarrow>
             (case ip_to_int (start e) of
                Inl _ \<Rightarrow> prepare_entries entries ipv4_entries ipv6_entries
              | Inr start_ip \<Rightarrow>
                  let end_ip = start_ip + num_ips - 1 in
                  prepare_entries entries
                    (ipv4_entries @
                       [(start_ip, end_ip, country_code e, rir e, date e, status e)])
                    ipv6_entries))
      else if type_field e = ''ipv6'' then
        (case py_int (value_field e) of
           None \<Rightarrow> prepare_entries entries ipv4_entries ipv6_entries
         | Some prefix_length \<Rightarrow>
             prepare_entries entries ipv4_entries
               (ipv6_entries @
                  [(start e, prefix_length, country_code e, rir e, date e, status e)]))
      else prepare_entries entries ipv4_entries ipv6_entries)"

definition insert_entries_to_db :: "db \<Rightarrow> rir_entry list \<Rightarrow> error + db" where
  \<comment> \<open>both batches are inserted in one transaction: when a number does not fit a SQLite
      integer the exception leaves the function before the commit, and the database is
      as it was\<close>
  "insert_entries_to_db d entries =
     (case prepare_entries entries [] [] of
        (ipv4_entries, ipv6_entries) \<Rightarrow>
          if \<not> list_all (\<lambda>(start_ip, end_ip, _). sqlite_integer start_ip \<and> sqlite_integer end_ip)
                 ipv4_entries
          then Inl OverflowError
          else if \<not> list_all (\<lambda>(_, prefix_length, _). sqlite_integer prefix_length) ipv6_entries
          then Inl OverflowError
          else Inr (d\<lparr>ipv4_ranges := ipv4_ranges d @ ipv4_entries,
                      ipv6_ranges := ipv6_ranges d @ ipv6_entries\<rparr>))"

section \<open>The index builder: \<open>build_table\<close>\<close>

definition rir_names :: "string list" where
  \<comment> \<open>the keys of \<open>rir_urls\<close>, in the order of the dictionary\<close>
  "rir_names = [''ARIN'', ''RIPE'', ''APNIC'', ''LACNIC'', ''AFRINIC'']"

fun build_loop ::
  "(string \<Rightarrow> string option) \<Rightarrow> string list \<Rightarrow> db \<times> int \<times> string list
     \<Rightarrow> (error \<times> db) + (db \<times> int \<times> string list)" where
  \<comment> \<open>the loop over the registries; \<open>download\<close> stands for \<open>download_rir_data\<close>. The state is
      the database, \<open>total_entries\<close> and \<open>successful_rirs\<close>. An exception of
      \<open>insert_entries_to_db\<close> ends the build, with the database as it is then.\<close>
  "build_loop download [] st = Inr st"
| "build_loop download (rir_name # rest) (d, total_entries, successful_rirs) =
     (case download rir_name of
        None \<Rightarrow> build_loop download rest (d, total_entries, successful_rirs)
      | Some data \<Rightarrow>
          if data = [] then build_loop download rest (d, total_entries, successful_rirs)
          else
            let entries = process_rir_data data rir_name in
            if entries = [] then build_loop download rest (d, total_entries, successful_rirs)
            else
              (case insert_entries_to_db d entries of
                 Inl err \<Rightarrow> Inl (err, d)
               | Inr d' \<Rightarrow>
                   build_loop download rest
                     (d', total_entries + int (length entries), successful_rirs @ [rir_name])))"

definition build_table :: "(string \<Rightarrow> string option) \<Rightarrow> string \<Rightarrow> db \<Rightarrow> (error \<times> db) + db" where
  \<comment> \<open>\<open>now\<close> stands for \<open>datetime.now().isoformat()\<close>; the result is the database the build
      leaves, on the left with the exception that ended it\<close>
  "build_table download now d =
     (let d = setup_database d;
          d = d\<lparr>ipv4_ranges := [], ipv6_ranges := []\<rparr>
      in case build_loop download rir_names (d, 0, []) of
           Inl x \<Rightarrow> Inl x
         | Inr (d, total_entries, successful_rirs) \<Rightarrow>
             let d = update_metadata d ''last_updated'' now;
                 d = update_metadata d ''total_entries'' (py_str_int total_entries);
                 d = update_metadata d ''successful_rirs'' (py_join '','' successful_rirs)
             in Inr d)"

definition db_after :: "(error \<times> db) + db \<Rightarrow> db" where
  \<comment> \<open>the database as a build leaves it, whether it returned or raised\<close>
  "db_after r = (case r of Inl (_, d) \<Rightarrow> d | Inr d \<Rightarrow> d)"



section \<open>Lookups\<close>

record lookup_result =
  res_ip_address :: string
  res_country_code :: "string option"
  res_rir :: "string option"
  res_date_allocated :: "string option"
  res_status :: "string option"
  res_ip_version :: "int option"
  res_network :: "string option"

text \<open>
  The keys of the result dictionary; \<open>None\<close> in \<open>res_network\<close> is a dictionary without the
  key \<open>network\<close>, \<open>None\<close> in the others is the value \<open>None\<close>.
\<close>

definition select_ipv4 :: "ipv4_row list \<Rightarrow> int \<Rightarrow> (string \<times> string \<times> string \<times> string) option" where
  \<comment> \<open>\<open>SELECT country_code, rir, date_allocated, status FROM ipv4_ranges
      WHERE start_ip <= ? AND end_ip >= ? ORDER BY end_ip - start_ip LIMIT 1\<close>.
      SQLite leaves the order of rows of equal size open; here they come in the order of
      the table. A row the code inserted starts at a 32-bit address, so the size of a row
      that holds the address stays within SQLite's 64-bit integers.\<close>
  "select_ipv4 rows ip_int =
     (case sort_key (\<lambda>(start_ip, end_ip, _). end_ip - start_ip)
             (filter (\<lambda>(start_ip, end_ip, _). start_ip \<le> ip_int \<and> end_ip \<ge> ip_int) rows) of
        [] \<Rightarrow> None
      | (_, _, cc, rir_name, date_allocated, st) # _ \<Rightarrow> Some (cc, rir_name, date_allocated, st))"

definition lookup_ipv4 :: "db \<Rightarrow> string \<Rightarrow> error + lookup_result option" where
  "lookup_ipv4 d ip_address =
     (case ip_to_int ip_address of
        Inl err \<Rightarrow> Inl err
      | Inr ip_int \<Rightarrow>
          (case select_ipv4 (ipv4_ranges d) ip_int of
             Some (cc, rir_name, date_allocated, st) \<Rightarrow>
               Inr (Some \<lparr>res_ip_address = ip_address, res_country_code = Some cc,
                           res_rir = Some rir_name, res_date_allocated = Some date_allocated,
                           res_status = Some st, res_ip_version = Some 4,
                           res_network = None\<rparr>)
           | None \<Rightarrow> Inr None))"

fun lookup_ipv6_rows ::
  "string \<Rightarrow> int \<times> string option \<Rightarrow> ipv6_row list \<Rightarrow> error + lookup_result option" where
  \<comment> \<open>the loop over \<open>cursor.fetchall()\<close>, in the order of the table: the first row whose
      network holds the address is returned\<close>
  "lookup_ipv6_rows ip_address ip_obj [] = Inr None"
| "lookup_ipv6_rows ip_address ip_obj
     ((network_str, prefix_length, cc, rir_name, date_allocated, st) # rows) =
     (case IPv6Network (network_str @ ''/'' @ py_str_int prefix_length) of
        Inl err \<Rightarrow>
          if is_ValueError err then lookup_ipv6_rows ip_address ip_obj rows else Inl err
      | Inr network \<Rightarrow>
          if network_contains network ip_obj
          then Inr (Some \<lparr>res_ip_address = ip_address, res_country_code = Some cc,
                           res_rir = Some rir_name, res_date_allocated = Some date_allocated,
                           res_status = Some st, res_ip_version = Some 6,
                           res_network = Some (str_IPv6Network network)\<rparr>)
          else lookup_ipv6_rows ip_address ip_obj rows)"

definition lookup_ipv6 :: "db \<Rightarrow> string \<Rightarrow> error + lookup_result option" where
  "lookup_ipv6 d ip_address =
     (case IPv6Address ip_address of
        Inl err \<Rightarrow> Inl err
      | Inr ip_obj \<Rightarrow> lookup_ipv6_rows ip_address ip_obj (ipv6_ranges d))"

definition lookup_ip :: "db \<Rightarrow> string \<Rightarrow> error + lookup_result option" where
  \<comment> \<open>the body runs under \<open>except ValueError: return None\<close>\<close>
  "lookup_ip d ip_address =
     (case (case ipaddress_ip_address ip_address of
              Inl err \<Rightarrow> Inl err
            | Inr (V4 ip) \<Rightarrow> lookup_ipv4 d (str_IPv4Address ip)
            | Inr (V6 a) \<Rightarrow> lookup_ipv6 d (str_IPv6Address a)) of
        Inl err \<Rightarrow> if is_ValueError err then Inr None else Inl err
      | Inr r \<Rightarrow> Inr r)"

fun bulk_lookup_loop :: "db \<Rightarrow> string list \<Rightarrow> lookup_result list \<Rightarrow> error + lookup_result list" where
  \<comment> \<open>the loop over \<open>ip_list\<close>, with the list \<open>results\<close> it appends to\<close>
  "bulk_lookup_loop d [] results = Inr results"
| "bulk_lookup_loop d (ip # ip_list) results =
     (case lookup_ip d ip of
        Inl err \<Rightarrow> Inl err
      | Inr (Some result) \<Rightarrow> bulk_lookup_loop d ip_list (results @ [result])
      | Inr None \<Rightarrow>
          bulk_lookup_loop d ip_list
            (results @ [\<lparr>res_ip_address = ip, res_country_code = None, res_rir = None,
                          res_date_allocated = None, res_status = None,
                          res_ip_version = None, res_network = None\<rparr>]))"

definition bulk_lookup :: "db \<Rightarrow> string list \<Rightarrow> error + lookup_result list" where
  "bulk_lookup d ip_list = bulk_lookup_loop d ip_list []"

section \<open>Sample registry data\<close>

definition empty_db :: db where
  \<comment> \<open>the database after \<open>setup_database\<close> on a new file\<close>
  "empty_db = \<lparr>ipv4_ranges = [], ipv6_ranges = [], metadata = []\<rparr>"

definition sample_download :: "string \<Rightarrow> string option" where
  \<comment> \<open>two registries answer, each with two nested allocations; the others are unavailable\<close>
  "sample_download rir_name =
     (if rir_name = ''ARIN''
      then Some (''arin|US|ipv4|8.0.0.0|16777216|19921201|allocated'' @ [CHR 0x0A] @
                 ''arin|CA|ipv4|8.8.8.0|256|20140328|allocated'' @ [CHR 0x0A])
      else if rir_name = ''RIPE''
      then Some (''ripencc|US|ipv6|2001:db8::|32|20100101|allocated'' @ [CHR 0x0A] @
                 ''ripencc|DE|ipv6|2001:db8::|48|20110101|allocated'' @ [CHR 0x0A])
      else None)"

definition sample_db :: db where
  "sample_db =
     \<lparr>ipv4_ranges =
        [(134217728, 150994943, ''US'', ''ARIN'', ''19921201'', ''allocated''),
         (134744064, 134744319, ''CA'', ''ARIN'', ''20140328'', ''allocated'')],
      ipv6_ranges =
        [(''2001:db8::'', 32, ''US'', ''RIPE'', ''20100101'', ''allocated''),
         (''2001:db8::'', 48, ''DE'', ''RIPE'', ''20110101'', ''allocated'')],
      metadata =
        [(''last_updated'', ''2024-01-01T00:00:00''), (''total_entries'', ''4''),
         (''successful_rirs'', ''ARIN,RIPE'')]\<rparr>"

section \<open>Properties of the record normalizer\<close>

lemma seven_fields:
  assumes "7 \<le> length fs"
  obtains a b c d e f g rest where "fs = a # b # c # d # e # f # g # rest"
  using assms by (auto simp: numeral_eq_Suc Suc_le_length_iff)

lemma take_seven:
  assumes "7 \<le> length fs"
  shows "take 7 fs = [fs!0, fs!1, fs!2, fs!3, fs!4, fs!5, fs!6]"
proof -
  from assms obtain a b c d e f g rest where "fs = a # b # c # d # e # f # g # rest"
    by (rule seven_fields)
  then show ?thesis by simp
qed

lemma take_seven_length:
  assumes "take 7 fs = [r, c, t, s, v, d, st]"
  shows "7 \<le> length fs"
proof -
  have "length (take 7 fs) = 7" using assms by simp
  then show ?thesis by simp
qed

lemma parse_rir_line_unfold:
  assumes "\<not> py_startswith line ''#''"
    and "take 7 (py_split CHR ''|'' (py_strip line)) = [r, c, t, s, v, d, st]"
  shows "parse_rir_line line =
           (if c = ''*'' \<or> length c \<noteq> 2 then None
            else if t \<noteq> ''ipv4'' \<and> t \<noteq> ''ipv6'' then None
            else Some \<lparr>registry = r, country_code = py_upper c, type_field = t, start = s,
                        value_field = v,
                        date = (if length d = 8 \<and> strptime_Ymd d = None then [] else d),
                        status = st\<rparr>)"
proof -
  have len: "7 \<le> length (py_split CHR ''|'' (py_strip line))"
    using assms(2) by (rule take_seven_length)
  then have "py_strip line \<noteq> []" by auto
  with len assms show ?thesis
    by (auto simp: parse_rir_line_def Let_def split: option.splits)
qed

text \<open>
  Claim C5, as the code has it. A line is rejected exactly when its first character is
  the comment marker, or it is blank, or its stripped text has fewer than seven
  pipe-delimited fields, or its country code is the wildcard or not two characters long,
  or its address-family tag is neither \<open>ipv4\<close> nor \<open>ipv6\<close>; every other line
  yields a record. The comment test reads the first character of the line, not its first
  non-blank character.
\<close>

theorem parse_rir_line_None_iff:
  "parse_rir_line line = None \<longleftrightarrow>
     (py_startswith line ''#'' \<or> py_strip line = [] \<or>
      (let fields = py_split CHR ''|'' (py_strip line) in
         length fields < 7 \<or> fields ! 1 = ''*'' \<or> length (fields ! 1) \<noteq> 2 \<or>
         fields ! 2 \<notin> {''ipv4'', ''ipv6''}))"
proof (cases "py_startswith line ''#'' \<or> length (py_split CHR ''|'' (py_strip line)) < 7")
  case True
  then show ?thesis by (auto simp: parse_rir_line_def Let_def)
next
  case False
  then have ns: "\<not> py_startswith line ''#''"
    and len: "7 \<le> length (py_split CHR ''|'' (py_strip line))" by auto
  from len have ne: "py_strip line \<noteq> []" by auto
  show ?thesis
    using parse_rir_line_unfold[OF ns take_seven[OF len]] ns len ne
    by (auto simp: Let_def)
qed

theorem parse_rir_line_None_iff_witness:
  "parse_rir_line ''arin|*|ipv4|8.8.8.0|256|20140328|allocated'' = None \<and>
   parse_rir_line ''arin|US|asn|8.8.8.0|256|20140328|allocated'' = None \<and>
   parse_rir_line ''arin|US|ipv4|8.8.8.0|256|20140328|allocated'' \<noteq> None"
  using parse_rir_line_None_iff[of "''arin|*|ipv4|8.8.8.0|256|20140328|allocated''"]
    parse_rir_line_None_iff[of "''arin|US|asn|8.8.8.0|256|20140328|allocated''"]
    parse_rir_line_None_iff[of "''arin|US|ipv4|8.8.8.0|256|20140328|allocated''"]
  by (simp add: py_strip_def is_space_def Let_def)

text \<open>
  The claim C5 as the specification words it counts a line whose first non-blank character
  is the comment marker as a comment. Such a line with leading blanks is not rejected.
\<close>

theorem parse_rir_line_indented_comment:
  "hd (dropWhile is_space '' #arin|US|ipv4|8.8.8.0|256|20140328|allocated'') = CHR ''#'' \<and>
   parse_rir_line '' #arin|US|ipv4|8.8.8.0|256|20140328|allocated'' =
     Some \<lparr>registry = ''#arin'', country_code = ''US'', type_field = ''ipv4'',
            start = ''8.8.8.0'', value_field = ''256'', date = ''20140328'',
            status = ''allocated''\<rparr>"
  by code_simp

text \<open>
  Claim C6, as the code has it. For an accepted line the stored date is the date field
  itself, except that a field of exactly eight characters that \<open>strptime\<close> refuses is
  replaced by the empty text; a field of any other length is kept as it is. Whatever
  text stands in the date field of an accepted line, the line stays accepted.
\<close>

theorem parse_rir_line_date:
  assumes "parse_rir_line line = Some e"
  shows "(let d = py_split CHR ''|'' (py_strip line) ! 5 in
            date e = (if length d = 8 \<and> strptime_Ymd d = None then [] else d)) \<and>
         (\<forall>line' d'. \<not> py_startswith line' ''#'' \<and>
             take 7 (py_split CHR ''|'' (py_strip line')) =
               (take 7 (py_split CHR ''|'' (py_strip line)))[5 := d']
             \<longrightarrow> parse_rir_line line' \<noteq> None)"
proof -
  from assms have ns: "\<not> py_startswith line ''#''"
    and len: "7 \<le> length (py_split CHR ''|'' (py_strip line))"
    by (auto simp: parse_rir_line_def Let_def split: if_splits)
  note u = parse_rir_line_unfold[OF ns take_seven[OF len]]
  from u assms have ok: "\<not> (py_split CHR ''|'' (py_strip line) ! 1 = ''*'' \<or>
      length (py_split CHR ''|'' (py_strip line) ! 1) \<noteq> 2)"
     "\<not> (py_split CHR ''|'' (py_strip line) ! 2 \<noteq> ''ipv4'' \<and>
         py_split CHR ''|'' (py_strip line) ! 2 \<noteq> ''ipv6'')"
    by (auto split: if_splits)
  have d: "(let d = py_split CHR ''|'' (py_strip line) ! 5 in
            date e = (if length d = 8 \<and> strptime_Ymd d = None then [] else d))"
    using u assms by (auto simp: Let_def split: if_splits)
  have "parse_rir_line line' \<noteq> None"
    if "\<not> py_startswith line' ''#''"
      and "take 7 (py_split CHR ''|'' (py_strip line')) =
               (take 7 (py_split CHR ''|'' (py_strip line)))[5 := d']" for line' d'
  proof -
    have "take 7 (py_split CHR ''|'' (py_strip line')) =
       [py_split CHR ''|'' (py_strip line) ! 0, py_split CHR ''|'' (py_strip line) ! 1,
        py_split CHR ''|'' (py_strip line) ! 2, py_split CHR ''|'' (py_strip line) ! 3,
        py_split CHR ''|'' (py_strip line) ! 4, d', py_split CHR ''|'' (py_strip line) ! 6]"
      using that(2) by (simp add: take_seven[OF len])
    from parse_rir_line_unfold[OF that(1) this] ok show ?thesis by auto
  qed
  with d show ?thesis by blast
qed

theorem parse_rir_line_date_witness:
  "parse_rir_line ''arin|US|ipv4|8.8.8.0|256|20140230|allocated'' =
     Some \<lparr>registry = ''arin'', country_code = ''US'', type_field = ''ipv4'',
            start = ''8.8.8.0'', value_field = ''256'', date = [], status = ''allocated''\<rparr> \<and>
   parse_rir_line ''arin|US|ipv4|8.8.8.0|256|not a date|allocated'' \<noteq> None"
proof -
  have h: "parse_rir_line ''arin|US|ipv4|8.8.8.0|256|20140230|allocated'' =
     Some \<lparr>registry = ''arin'', country_code = ''US'', type_field = ''ipv4'',
            start = ''8.8.8.0'', value_field = ''256'', date = [], status = ''allocated''\<rparr>"
    by code_simp
  have pre: "\<not> py_startswith ''arin|US|ipv4|8.8.8.0|256|not a date|allocated'' ''#'' \<and>
     take 7 (py_split CHR ''|'' (py_strip ''arin|US|ipv4|8.8.8.0|256|not a date|allocated'')) =
       (take 7 (py_split CHR ''|'' (py_strip ''arin|US|ipv4|8.8.8.0|256|20140230|allocated'')))
         [5 := ''not a date'']"
    by code_simp
  from parse_rir_line_date[OF h] pre
  have "parse_rir_line ''arin|US|ipv4|8.8.8.0|256|not a date|allocated'' \<noteq> None"
    by blast
  with h show ?thesis by blast
qed

text \<open>
  The claim C6 as stated fails: a date field that is not eight characters long is kept,
  so an accepted record can carry a date that is neither absent nor a calendar date.
\<close>

theorem parse_rir_line_short_date_kept:
  "parse_rir_line ''arin|US|ipv4|8.8.8.0|256|2014|allocated'' =
     Some \<lparr>registry = ''arin'', country_code = ''US'', type_field = ''ipv4'',
            start = ''8.8.8.0'', value_field = ''256'', date = ''2014'',
            status = ''allocated''\<rparr>"
  by code_simp

text \<open>
  Claim C10. Only the first seven fields of the stripped line are read: two lines, neither
  starting with the comment marker, whose first seven fields agree give the same
  result, whatever fields follow the seventh.
\<close>

theorem parse_rir_line_first_seven:
  assumes "\<not> py_startswith line ''#''" and "\<not> py_startswith line' ''#''"
    and "7 \<le> length (py_split CHR ''|'' (py_strip line))"
    and "take 7 (py_split CHR ''|'' (py_strip line')) = take 7 (py_split CHR ''|'' (py_strip line))"
  shows "parse_rir_line line' = parse_rir_line line"
proof -
  note t = take_seven[OF assms(3)]
  from assms(4) t have t': "take 7 (py_split CHR ''|'' (py_strip line')) = 
       [py_split CHR ''|'' (py_strip line) ! 0, py_split CHR ''|'' (py_strip line) ! 1,
        py_split CHR ''|'' (py_strip line) ! 2, py_split CHR ''|'' (py_strip line) ! 3,
        py_split CHR ''|'' (py_strip line) ! 4, py_split CHR ''|'' (py_strip line) ! 5, py_split CHR ''|'' (py_strip line) ! 6]"
    by simp
  show ?thesis
    by (simp only: parse_rir_line_unfold[OF assms(1) t] parse_rir_line_unfold[OF assms(2) t'])
qed

theorem parse_rir_line_first_seven_witness:
  "parse_rir_line ''apnic|JP|ipv6|2001:200::|35|19990813|allocated|A92E1062|e-stats'' =
   parse_rir_line ''apnic|JP|ipv6|2001:200::|35|19990813|allocated'' \<and>
   parse_rir_line ''apnic|JP|ipv6|2001:200::|35|19990813|allocated'' \<noteq> None"
proof -
  have a: "\<not> py_startswith ''apnic|JP|ipv6|2001:200::|35|19990813|allocated'' ''#''"
    by simp
  have b: "\<not> py_startswith
     ''apnic|JP|ipv6|2001:200::|35|19990813|allocated|A92E1062|e-stats'' ''#''"
    by simp
  have c: "7 \<le> length (py_split CHR ''|''
     (py_strip ''apnic|JP|ipv6|2001:200::|35|19990813|allocated''))"
    by code_simp
  have d: "take 7 (py_split CHR ''|''
       (py_strip ''apnic|JP|ipv6|2001:200::|35|19990813|allocated|A92E1062|e-stats'')) =
     take 7 (py_split CHR ''|'' (py_strip ''apnic|JP|ipv6|2001:200::|35|19990813|allocated''))"
    by code_simp
  have e: "parse_rir_line ''apnic|JP|ipv6|2001:200::|35|19990813|allocated'' \<noteq> None"
    by code_simp
  from parse_rir_line_first_seven[OF a b c d] e show ?thesis by blast
qed

section \<open>Properties of the range canonicalizer\<close>

lemma prepare_entries_acc:
  "prepare_entries es a4 a6 =
     (a4 @ fst (prepare_entries es [] []), a6 @ snd (prepare_entries es [] []))"
proof (induction es arbitrary: a4 a6)
  case Nil
  then show ?case by simp
next
  case (Cons e es)
  note ih = Cons.IH
  show ?case
  proof (cases "type_field e = ''ipv4''")
    case True
    then show ?thesis
      using ih[of a4 a6] ih[of "a4 @ [x]" a6 for x] ih[of "[x]" "[]" for x]
      by (auto simp: Let_def split: option.splits sum.splits)
  next
    case False
    then show ?thesis
      using ih[of a4 a6] ih[of a4 "a6 @ [x]" for x] ih[of "[]" "[x]" for x]
      by (auto simp: Let_def split: option.splits sum.splits)
  qed
qed

lemma prepare_entries_append:
  "prepare_entries (xs @ ys) a4 a6 =
     (case prepare_entries xs a4 a6 of (b4, b6) \<Rightarrow> prepare_entries ys b4 b6)"
  by (induction xs arbitrary: a4 a6) (auto simp: Let_def split: option.splits sum.splits)

lemma prepare_entries_split:
  "prepare_entries (xs @ e # ys) [] [] =
     (fst (prepare_entries xs [] []) @ fst (prepare_entries [e] [] []) @ fst (prepare_entries ys [] []),
      snd (prepare_entries xs [] []) @ snd (prepare_entries [e] [] []) @ snd (prepare_entries ys [] []))"
proof -
  define X where "X = prepare_entries xs [] []"
  define E where "E = prepare_entries [e] [] []"
  define Y where "Y = prepare_entries ys [] []"
  have 1: "prepare_entries (xs @ [e] @ ys) [] [] =
     (case X of (b4, b6) \<Rightarrow>
        (case prepare_entries [e] b4 b6 of (c4, c6) \<Rightarrow> prepare_entries ys c4 c6))"
    unfolding X_def by (simp only: prepare_entries_append)
  have 2: "prepare_entries [e] b4 b6 = (b4 @ fst E, b6 @ snd E)" for b4 b6
    unfolding E_def by (rule prepare_entries_acc)
  have 3: "prepare_entries ys c4 c6 = (c4 @ fst Y, c6 @ snd Y)" for c4 c6
    unfolding Y_def by (rule prepare_entries_acc)
  have "prepare_entries (xs @ [e] @ ys) [] [] =
          (fst X @ fst E @ fst Y, snd X @ snd E @ snd Y)"
    unfolding 1 by (cases X) (simp only: 2 3 prod.case fst_conv snd_conv append_assoc)
  then show ?thesis
    unfolding X_def E_def Y_def by (simp only: append_Cons append_Nil)
qed

lemma insert_entries_to_db_tables:
  assumes "insert_entries_to_db d es = Inr d'"
  shows "ipv4_ranges d' = ipv4_ranges d @ fst (prepare_entries es [] [])"
    and "ipv6_ranges d' = ipv6_ranges d @ snd (prepare_entries es [] [])"
  using assms by (auto simp: insert_entries_to_db_def split: prod.splits if_splits)

text \<open>
  Claim C2, as the code has it. When \<open>insert_entries_to_db\<close> returns, an IPv4 record of the
  batch contributes no row exactly when \<open>int()\<close> refuses its size field or its start
  address is not a dotted quad; otherwise it contributes the one row from \<open>start\<close> to
  \<open>start + count - 1\<close>, whatever the sign of the count and however large the end. The
  records before and after it contribute what they contribute on their own.
\<close>

theorem insert_ipv4_entry:
  assumes "type_field e = ''ipv4''"
    and "insert_entries_to_db d (xs @ e # ys) = Inr d'"
  shows "ipv4_ranges d' =
           ipv4_ranges d @ fst (prepare_entries xs [] []) @
           (case (py_int (value_field e), ip_to_int (start e)) of
              (Some num_ips, Inr start_ip) \<Rightarrow>
                [(start_ip, start_ip + num_ips - 1, country_code e, rir e, date e, status e)]
            | _ \<Rightarrow> []) @
           fst (prepare_entries ys [] [])"
proof -
  have "fst (prepare_entries [e] [] []) =
          (case (py_int (value_field e), ip_to_int (start e)) of
              (Some num_ips, Inr start_ip) \<Rightarrow>
                [(start_ip, start_ip + num_ips - 1, country_code e, rir e, date e, status e)]
            | _ \<Rightarrow> [])"
    using assms(1) by (simp add: Let_def split: option.splits sum.splits)
  then show ?thesis
    using insert_entries_to_db_tables(1)[OF assms(2)]
    by (simp only: prepare_entries_split fst_conv)
qed

theorem insert_ipv4_entry_witness:
  "type_field \<lparr>registry = ''arin'', country_code = ''US'', type_field = ''ipv4'',
                start = ''8.8.8.0'', value_field = ''0'', date = ''20140328'',
                status = ''allocated'', rir = ''ARIN''\<rparr> = ''ipv4'' \<and>
   insert_entries_to_db empty_db
     ([\<lparr>registry = ''arin'', country_code = ''US'', type_field = ''ipv4'',
        start = ''8.8.8'', value_field = ''256'', date = ''20140328'',
        status = ''allocated'', rir = ''ARIN''\<rparr>] @
      \<lparr>registry = ''arin'', country_code = ''US'', type_field = ''ipv4'',
       start = ''8.8.8.0'', value_field = ''0'', date = ''20140328'',
       status = ''allocated'', rir = ''ARIN''\<rparr> # []) =
     Inr \<lparr>ipv4_ranges =
            [(134744064, 134744063, ''US'', ''ARIN'', ''20140328'', ''allocated'')],
          ipv6_ranges = [], metadata = []\<rparr> \<and>
   ipv4_ranges \<lparr>ipv4_ranges =
                  [(134744064, 134744063, ''US'', ''ARIN'', ''20140328'', ''allocated'')],
                ipv6_ranges = [], metadata = []\<rparr> =
     [(134744064, 134744063, ''US'', ''ARIN'', ''20140328'', ''allocated'')]"
proof -
  let ?bad = "\<lparr>registry = ''arin'', country_code = ''US'', type_field = ''ipv4'',
        start = ''8.8.8'', value_field = ''256'', date = ''20140328'',
        status = ''allocated'', rir = ''ARIN''\<rparr>"
  let ?e = "\<lparr>registry = ''arin'', country_code = ''US'', type_field = ''ipv4'',
       start = ''8.8.8.0'', value_field = ''0'', date = ''20140328'',
       status = ''allocated'', rir = ''ARIN''\<rparr>"
  let ?d = "\<lparr>ipv4_ranges =
            [(134744064, 134744063, ''US'', ''ARIN'', ''20140328'', ''allocated'')],
          ipv6_ranges = [], metadata = []\<rparr>"
  have h1: "type_field ?e = ''ipv4''" by simp
  have h2: "insert_entries_to_db empty_db ([?bad] @ ?e # []) = Inr ?d" by code_simp
  have x: "fst (prepare_entries [?bad] [] []) = []" by code_simp
  have c: "(case (py_int (value_field ?e), ip_to_int (start ?e)) of
              (Some num_ips, Inr start_ip) \<Rightarrow>
                [(start_ip, start_ip + num_ips - 1, country_code ?e, rir ?e, date ?e, status ?e)]
            | _ \<Rightarrow> []) =
           [(134744064, 134744063, ''US'', ''ARIN'', ''20140328'', ''allocated'')]"
    by code_simp
  from insert_ipv4_entry[OF h1 h2]
  have "ipv4_ranges ?d =
          [(134744064, 134744063, ''US'', ''ARIN'', ''20140328'', ''allocated'')]"
    unfolding x c by (simp add: empty_db_def)
  with h1 h2 show ?thesis by blast
qed

text \<open>
  The claim C2 as stated fails: the record that starts at 255.255.255.0 with a count of
  512 is stored, with an end beyond the 32-bit address space.
\<close>

theorem insert_ipv4_overflow_stored:
  "insert_entries_to_db empty_db
     (process_rir_data ''arin|US|ipv4|255.255.255.0|512|20140328|allocated'' ''ARIN'') =
   Inr \<lparr>ipv4_ranges =
          [(4294967040, 4294967551, ''US'', ''ARIN'', ''20140328'', ''allocated'')],
        ipv6_ranges = [], metadata = []\<rparr>"
  by code_simp

text \<open>
  Claim C7, as the code has it. When \<open>insert_entries_to_db\<close> returns, an IPv6 record of the
  batch contributes no row exactly when \<open>int()\<close> refuses its size field; otherwise it
  contributes one row that holds the start text as it stands and the size as the prefix
  length. The address is not parsed and the prefix length is not bounded before storage.
\<close>

theorem insert_ipv6_entry:
  assumes "type_field e = ''ipv6''"
    and "insert_entries_to_db d (xs @ e # ys) = Inr d'"
  shows "ipv6_ranges d' =
           ipv6_ranges d @ snd (prepare_entries xs [] []) @
           (case py_int (value_field e) of
              Some prefix_length \<Rightarrow>
                [(start e, prefix_length, country_code e, rir e, date e, status e)]
            | None \<Rightarrow> []) @
           snd (prepare_entries ys [] [])"
proof -
  have "snd (prepare_entries [e] [] []) =
          (case py_int (value_field e) of
              Some prefix_length \<Rightarrow>
                [(start e, prefix_length, country_code e, rir e, date e, status e)]
            | None \<Rightarrow> [])"
    using assms(1) by (simp add: Let_def split: option.splits sum.splits)
  then show ?thesis
    using insert_entries_to_db_tables(2)[OF assms(2)]
    by (simp only: prepare_entries_split snd_conv)
qed

theorem insert_ipv6_entry_witness:
  "type_field \<lparr>registry = ''ripencc'', country_code = ''FR'', type_field = ''ipv6'',
                start = ''2a01:e00::'', value_field = ''32'', date = [],
                status = ''allocated'', rir = ''RIPE''\<rparr> = ''ipv6'' \<and>
   insert_entries_to_db empty_db
     ([\<lparr>registry = ''ripencc'', country_code = ''FR'', type_field = ''ipv6'',
        start = ''2a01:e00::'', value_field = ''thirty-two'', date = [],
        status = ''allocated'', rir = ''RIPE''\<rparr>] @
      \<lparr>registry = ''ripencc'', country_code = ''FR'', type_field = ''ipv6'',
       start = ''2a01:e00::'', value_field = ''32'', date = [],
       status = ''allocated'', rir = ''RIPE''\<rparr> # []) =
     Inr \<lparr>ipv4_ranges = [],
          ipv6_ranges = [(''2a01:e00::'', 32, ''FR'', ''RIPE'', [], ''allocated'')],
          metadata = []\<rparr> \<and>
   ipv6_ranges \<lparr>ipv4_ranges = [],
                ipv6_ranges = [(''2a01:e00::'', 32, ''FR'', ''RIPE'', [], ''allocated'')],
                metadata = []\<rparr> =
     [(''2a01:e00::'', 32, ''FR'', ''RIPE'', [], ''allocated'')]"
proof -
  let ?bad = "\<lparr>registry = ''ripencc'', country_code = ''FR'', type_field = ''ipv6'',
        start = ''2a01:e00::'', value_field = ''thirty-two'', date = [],
        status = ''allocated'', rir = ''RIPE''\<rparr>"
  let ?e = "\<lparr>registry = ''ripencc'', country_code = ''FR'', type_field = ''ipv6'',
       start = ''2a01:e00::'', value_field = ''32'', date = [],
       status = ''allocated'', rir = ''RIPE''\<rparr>"
  let ?d = "\<lparr>ipv4_ranges = [],
          ipv6_ranges = [(''2a01:e00::'', 32, ''FR'', ''RIPE'', [], ''allocated'')],
          metadata = []\<rparr>"
  have h1: "type_field ?e = ''ipv6''" by simp
  have h2: "insert_entries_to_db empty_db ([?bad] @ ?e # []) = Inr ?d" by code_simp
  have x: "snd (prepare_entries [?bad] [] []) = []" by code_simp
  have c: "(case py_int (value_field ?e) of
              Some prefix_length \<Rightarrow>
                [(start ?e, prefix_length, country_code ?e, rir ?e, date ?e, status ?e)]
            | None \<Rightarrow> []) =
           [(''2a01:e00::'', 32, ''FR'', ''RIPE'', [], ''allocated'')]"
    by code_simp
  from insert_ipv6_entry[OF h1 h2]
  have "ipv6_ranges ?d = [(''2a01:e00::'', 32, ''FR'', ''RIPE'', [], ''allocated'')]"
    unfolding x c by (simp add: empty_db_def)
  with h1 h2 show ?thesis by blast
qed

text \<open>
  The claim C7 as stated fails: a record with host bits set and a prefix length of 200
  is stored as it stands.
\<close>

theorem insert_ipv6_unchecked_stored:
  "insert_entries_to_db empty_db
     (process_rir_data ''ripencc|FR|ipv6|2001:db8::1|200||allocated'' ''RIPE'') =
   Inr \<lparr>ipv4_ranges = [],
        ipv6_ranges = [(''2001:db8::1'', 200, ''FR'', ''RIPE'', [], ''allocated'')],
        metadata = []\<rparr>"
  by code_simp

section \<open>Properties of the lookups\<close>

lemma sort_key_hd_min:
  assumes "sort_key f xs = y # ys"
  shows "y \<in> set xs \<and> (\<forall>x \<in> set xs. f y \<le> f x)"
proof -
  have "sorted (map f (sort_key f xs))" by (rule sorted_sort_key)
  then have "\<forall>x \<in> set (y # ys). f y \<le> f x" using assms by auto
  moreover have "set (y # ys) = set xs" using assms set_sort[of f xs] by simp
  ultimately show ?thesis by auto
qed

lemma sort_key_Nil_iff: "sort_key f xs = [] \<longleftrightarrow> xs = []"
  using length_sort[of f xs] by (metis length_0_conv)

text \<open>
  Claim C3. When a stored range from \<open>s\<close> to \<open>e\<close> holds the address \<open>a\<close> that the query
  text denotes, \<open>lookup_ipv4\<close> returns a result, never "not found", and the result carries
  the attributes of a stored range that holds \<open>a\<close> and is no wider than any stored range
  that holds \<open>a\<close>.
\<close>

theorem lookup_ipv4_narrowest:
  assumes "(s, e, attrs) \<in> set (ipv4_ranges d)"
    and "ip_to_int ip = Inr a"
    and "s \<le> a" and "a \<le> e"
  shows "\<exists>s' e' cc rir_name date_allocated st.
           lookup_ipv4 d ip =
             Inr (Some \<lparr>res_ip_address = ip, res_country_code = Some cc,
                         res_rir = Some rir_name, res_date_allocated = Some date_allocated,
                         res_status = Some st, res_ip_version = Some 4,
                         res_network = None\<rparr>) \<and>
           (s', e', cc, rir_name, date_allocated, st) \<in> set (ipv4_ranges d) \<and>
           s' \<le> a \<and> a \<le> e' \<and>
           (\<forall>(s'', e'', attrs'') \<in> set (ipv4_ranges d).
              s'' \<le> a \<and> a \<le> e'' \<longrightarrow> e' - s' \<le> e'' - s'')"
proof -
  let ?m = "filter (\<lambda>(start_ip, end_ip, _). start_ip \<le> a \<and> end_ip \<ge> a) (ipv4_ranges d)"
  let ?k = "\<lambda>(start_ip, end_ip, _). end_ip - start_ip :: int"
  have mem0: "(s, e, attrs) \<in> set ?m" using assms by simp
  have "?m \<noteq> []"
  proof
    assume "?m = []"
    with mem0 have "(s, e, attrs) \<in> set []" by (simp only:)
    then show False by simp
  qed
  then obtain y ys where srt: "sort_key ?k ?m = y # ys"
    by (cases "sort_key ?k ?m") (simp_all add: sort_key_Nil_iff)
  obtain s' e' cc rir_name date_allocated st where y: "y = (s', e', cc, rir_name, date_allocated, st)"
    by (cases y)
  from sort_key_hd_min[OF srt] have mem: "y \<in> set ?m" and mini: "\<forall>x \<in> set ?m. ?k y \<le> ?k x"
    by auto
  have "lookup_ipv4 d ip =
             Inr (Some \<lparr>res_ip_address = ip, res_country_code = Some cc,
                         res_rir = Some rir_name, res_date_allocated = Some date_allocated,
                         res_status = Some st, res_ip_version = Some 4,
                         res_network = None\<rparr>)"
    using assms(2) srt y by (simp add: lookup_ipv4_def select_ipv4_def)
  moreover have "(s', e', cc, rir_name, date_allocated, st) \<in> set (ipv4_ranges d)" "s' \<le> a" "a \<le> e'"
    using mem y by auto
  moreover have "e' - s' \<le> e'' - s''"
    if "(s'', e'', attrs'') \<in> set (ipv4_ranges d)" and "s'' \<le> a" and "a \<le> e''"
    for s'' e'' attrs''
  proof -
    from that have "(s'', e'', attrs'') \<in> set ?m" by simp
    with mini have "?k y \<le> ?k (s'', e'', attrs'')" by blast
    then show ?thesis using y by simp
  qed
  then have "\<forall>(s'', e'', attrs'') \<in> set (ipv4_ranges d).
              s'' \<le> a \<and> a \<le> e'' \<longrightarrow> e' - s' \<le> e'' - s''"
    by blast
  ultimately show ?thesis by blast
qed

theorem lookup_ipv4_narrowest_witness:
  "(134217728, 150994943, ''US'', ''ARIN'', ''19921201'', ''allocated'')
     \<in> set (ipv4_ranges sample_db) \<and>
   ip_to_int ''8.8.8.8'' = Inr 134744072 \<and>
   (134217728::int) \<le> 134744072 \<and> (134744072::int) \<le> 150994943 \<and>
   (\<exists>s' e' cc rir_name date_allocated st.
      lookup_ipv4 sample_db ''8.8.8.8'' =
        Inr (Some \<lparr>res_ip_address = ''8.8.8.8'', res_country_code = Some cc,
                    res_rir = Some rir_name, res_date_allocated = Some date_allocated,
                    res_status = Some st, res_ip_version = Some 4,
                    res_network = None\<rparr>) \<and>
      (s', e', cc, rir_name, date_allocated, st) \<in> set (ipv4_ranges sample_db) \<and>
      s' \<le> 134744072 \<and> 134744072 \<le> e' \<and>
      (\<forall>(s'', e'', attrs'') \<in> set (ipv4_ranges sample_db).
         s'' \<le> 134744072 \<and> 134744072 \<le> e'' \<longrightarrow> e' - s' \<le> e'' - s''))"
proof -
  have h1: "(134217728, 150994943, ''US'', ''ARIN'', ''19921201'', ''allocated'')
     \<in> set (ipv4_ranges sample_db)"
    by (simp add: sample_db_def)
  have h2: "ip_to_int ''8.8.8.8'' = Inr 134744072" by code_simp
  have h3: "(134217728::int) \<le> 134744072" by simp
  have h4: "(134744072::int) \<le> 150994943" by simp
  from lookup_ipv4_narrowest[OF h1 h2 h3 h4] h1 h2 h3 h4 show ?thesis by blast
qed

lemma sample_build:
  "build_table sample_download ''2024-01-01T00:00:00'' empty_db = Inr sample_db"
  by code_simp

text \<open>
  Claim C1 on the code. The registry data of \<open>sample_download\<close> nests \<open>2001:db8::/48\<close>
  (DE) in \<open>2001:db8::/32\<close> (US), the wider block first. The build stores both rows in
  that order, and the lookup of an address inside the \<open>/48\<close> returns the first row that
  holds it, the \<open>/32\<close>, not the longest prefix.
\<close>

theorem lookup_ipv6_first_row_wins:
  "build_table sample_download ''2024-01-01T00:00:00'' empty_db = Inr sample_db \<and>
   lookup_ipv6 sample_db ''2001:db8::1'' =
     Inr (Some \<lparr>res_ip_address = ''2001:db8::1'', res_country_code = Some ''US'',
                 res_rir = Some ''RIPE'', res_date_allocated = Some ''20100101'',
                 res_status = Some ''allocated'', res_ip_version = Some 6,
                 res_network = Some ''2001:db8::/32''\<rparr>)"
proof -
  have "lookup_ipv6 sample_db ''2001:db8::1'' =
     Inr (Some \<lparr>res_ip_address = ''2001:db8::1'', res_country_code = Some ''US'',
                 res_rir = Some ''RIPE'', res_date_allocated = Some ''20100101'',
                 res_status = Some ''allocated'', res_ip_version = Some 6,
                 res_network = Some ''2001:db8::/32''\<rparr>)"
    by code_simp
  with sample_build show ?thesis by blast
qed

lemma lookup_ip_returns: "\<exists>r. lookup_ip d ip = Inr r"
proof -
  have 4: "\<exists>r. lookup_ipv4 d s = Inr r \<or> (\<exists>err. lookup_ipv4 d s = Inl err \<and> is_ValueError err)" for s
    by (auto simp: lookup_ipv4_def ip_to_int_def IPv4Address_def split: sum.splits option.splits if_splits)
  have rows: "\<exists>r. lookup_ipv6_rows s a rows = Inr r" for s a rows
  proof (induction rows)
    case Nil
    then show ?case by simp
  next
    case (Cons row rows)
    obtain n p c r da st where row: "row = (n, p, c, r, da, st)" by (cases row)
    have "IPv6Network x = Inl err \<Longrightarrow> is_ValueError err" for x err
      by (auto simp: IPv6Network_def IPv6Address_def Let_def
               split: list.splits sum.splits option.splits if_splits prod.splits)
    with Cons show ?case unfolding row
      by (auto split: sum.splits)
  qed
  have 6: "\<exists>r. lookup_ipv6 d s = Inr r \<or> (\<exists>err. lookup_ipv6 d s = Inl err \<and> is_ValueError err)" for s
    using rows by (auto simp: lookup_ipv6_def IPv6Address_def split: sum.splits option.splits if_splits)
  have a: "ipaddress_ip_address ip = Inl err \<Longrightarrow> is_ValueError err" for err
    by (auto simp: ipaddress_ip_address_def IPv4Address_def IPv6Address_def
             split: sum.splits option.splits if_splits)
  show ?thesis
  proof (cases "ipaddress_ip_address ip")
    case (Inl err)
    with a show ?thesis by (simp add: lookup_ip_def)
  next
    case (Inr obj)
    show ?thesis
    proof (cases obj)
      case (V4 x)
      with Inr 4[of "str_IPv4Address x"] show ?thesis
        by (auto simp: lookup_ip_def)
    next
      case (V6 x)
      with Inr 6[of "str_IPv6Address x"] show ?thesis
        by (auto simp: lookup_ip_def)
    qed
  qed
qed

lemma lookup_ip_unparseable:
  assumes "ipaddress_ip_address ip = Inl err"
  shows "lookup_ip d ip = Inr None"
proof -
  have "is_ValueError err"
    using assms
    by (auto simp: ipaddress_ip_address_def IPv4Address_def IPv6Address_def
             split: sum.splits option.splits if_splits)
  with assms show ?thesis by (simp add: lookup_ip_def)
qed

lemma bulk_lookup_loop_eq:
  "bulk_lookup_loop d ips acc =
     Inr (acc @ map (\<lambda>ip. case lookup_ip d ip of
                              Inr (Some r) \<Rightarrow> r
                            | _ \<Rightarrow> \<lparr>res_ip_address = ip, res_country_code = None, res_rir = None,
                 res_date_allocated = None, res_status = None,
                 res_ip_version = None, res_network = None\<rparr>) ips)"
proof (induction ips arbitrary: acc)
  case Nil
  then show ?case by simp
next
  case (Cons ip ips)
  from lookup_ip_returns[of d ip] obtain r where r: "lookup_ip d ip = Inr r" by blast
  show ?case
    by (cases r) (simp_all add: r Cons.IH)
qed

text \<open>
  Claim C9. \<open>bulk_lookup\<close> returns, never raises, and its list has one result for each
  address of the input, in the order of the input: the placeholder with the queried
  text and every other field absent where \<open>lookup_ip\<close> finds nothing, which includes
  every text that is not an address, and the result of \<open>lookup_ip\<close> otherwise.
\<close>

theorem bulk_lookup_total:
  "\<exists>results. bulk_lookup d ip_list = Inr results \<and>
      length results = length ip_list \<and>
      (\<forall>i < length ip_list.
         (lookup_ip d (ip_list ! i) = Inr None \<or> (\<exists>err. ipaddress_ip_address (ip_list ! i) = Inl err)
            \<longrightarrow> results ! i =
                  \<lparr>res_ip_address = ip_list ! i, res_country_code = None, res_rir = None,
                   res_date_allocated = None, res_status = None,
                   res_ip_version = None, res_network = None\<rparr>) \<and>
         (\<forall>r. lookup_ip d (ip_list ! i) = Inr (Some r) \<longrightarrow> results ! i = r))"
proof -
  let ?p = "\<lambda>ip. \<lparr>res_ip_address = ip, res_country_code = None, res_rir = None,
                 res_date_allocated = None, res_status = None,
                 res_ip_version = None, res_network = None\<rparr>"
  let ?f = "\<lambda>ip. case lookup_ip d ip of Inr (Some r) \<Rightarrow> r | _ \<Rightarrow> ?p ip"
  have "bulk_lookup d ip_list = Inr (map ?f ip_list)"
    by (simp add: bulk_lookup_def bulk_lookup_loop_eq)
  moreover have "length (map ?f ip_list) = length ip_list" by simp
  moreover have "(lookup_ip d (ip_list ! i) = Inr None \<or> (\<exists>err. ipaddress_ip_address (ip_list ! i) = Inl err)
            \<longrightarrow> map ?f ip_list ! i = ?p (ip_list ! i)) \<and>
         (\<forall>r. lookup_ip d (ip_list ! i) = Inr (Some r) \<longrightarrow> map ?f ip_list ! i = r)"
    if "i < length ip_list" for i
    using that by (auto simp: lookup_ip_unparseable)
  ultimately show ?thesis by blast
qed

theorem bulk_lookup_total_witness:
  "\<exists>results. bulk_lookup sample_db [''8.8.8.8'', ''not an address''] = Inr results \<and>
      length results = 2 \<and>
      results ! 1 =
        \<lparr>res_ip_address = ''not an address'', res_country_code = None, res_rir = None,
         res_date_allocated = None, res_status = None,
         res_ip_version = None, res_network = None\<rparr>"
proof -
  have u: "ipaddress_ip_address ''not an address'' = Inl ValueError" by code_simp
  from bulk_lookup_total[of sample_db "[''8.8.8.8'', ''not an address'']"]
  obtain results where r: "bulk_lookup sample_db [''8.8.8.8'', ''not an address''] = Inr results"
    and l: "length results = length [''8.8.8.8'', ''not an address'']"
    and p: "\<forall>i < length [''8.8.8.8'', ''not an address''].
         (lookup_ip sample_db ([''8.8.8.8'', ''not an address''] ! i) = Inr None \<or>
          (\<exists>err. ipaddress_ip_address ([''8.8.8.8'', ''not an address''] ! i) = Inl err)
            \<longrightarrow> results ! i =
                  \<lparr>res_ip_address = [''8.8.8.8'', ''not an address''] ! i,
                   res_country_code = None, res_rir = None,
                   res_date_allocated = None, res_status = None,
                   res_ip_version = None, res_network = None\<rparr>) \<and>
         (\<forall>r. lookup_ip sample_db ([''8.8.8.8'', ''not an address''] ! i) = Inr (Some r)
            \<longrightarrow> results ! i = r)"
    by blast
  from p have "(lookup_ip sample_db ([''8.8.8.8'', ''not an address''] ! 1) = Inr None \<or>
          (\<exists>err. ipaddress_ip_address ([''8.8.8.8'', ''not an address''] ! 1) = Inl err)
            \<longrightarrow> results ! 1 =
                  \<lparr>res_ip_address = [''8.8.8.8'', ''not an address''] ! 1,
                   res_country_code = None, res_rir = None,
                   res_date_allocated = None, res_status = None,
                   res_ip_version = None, res_network = None\<rparr>)"
    by simp
  with u have "results ! 1 =
        \<lparr>res_ip_address = ''not an address'', res_country_code = None, res_rir = None,
         res_date_allocated = None, res_status = None,
         res_ip_version = None, res_network = None\<rparr>"
    by simp
  with r l show ?thesis by simp
qed

section \<open>Properties of the build\<close>

lemma insert_entries_to_db_same:
  assumes "ipv4_ranges d = ipv4_ranges d'" and "ipv6_ranges d = ipv6_ranges d'"
  shows "rel_sum (=) (\<lambda>x x'. ipv4_ranges x = ipv4_ranges x' \<and> ipv6_ranges x = ipv6_ranges x')
           (insert_entries_to_db d es) (insert_entries_to_db d' es)"
  using assms by (auto simp: insert_entries_to_db_def split: prod.splits)

lemma build_loop_same:
  assumes "ipv4_ranges d = ipv4_ranges d'" and "ipv6_ranges d = ipv6_ranges d'"
  shows "rel_sum
           (\<lambda>(err, x) (err', x'). err = err' \<and> ipv4_ranges x = ipv4_ranges x' \<and>
                                   ipv6_ranges x = ipv6_ranges x')
           (\<lambda>(x, t, s) (x', t', s'). ipv4_ranges x = ipv4_ranges x' \<and>
                                      ipv6_ranges x = ipv6_ranges x' \<and> t = t' \<and> s = s')
           (build_loop download names (d, t, s)) (build_loop download names (d', t, s))"
  using assms
proof (induction names arbitrary: d d' t s)
  case Nil
  then show ?case by simp
next
  case (Cons n names)
  show ?case
  proof (cases "download n")
    case None
    with Cons show ?thesis by simp
  next
    case (Some data)
    let ?es = "process_rir_data data n"
    show ?thesis
    proof (cases "data = [] \<or> ?es = []")
      case True
      with Some Cons show ?thesis by (auto simp: Let_def)
    next
      case False
      note rel = insert_entries_to_db_same[OF Cons.prems, of ?es]
      show ?thesis
      proof (cases "insert_entries_to_db d ?es")
        case (Inl err)
        with rel obtain err' where "insert_entries_to_db d' ?es = Inl err'" and "err = err'"
          by (cases "insert_entries_to_db d' ?es") simp_all
        with Inl Some False Cons.prems show ?thesis by (simp add: Let_def)
      next
        case (Inr x)
        with rel obtain x' where x': "insert_entries_to_db d' ?es = Inr x'"
          and same: "ipv4_ranges x = ipv4_ranges x'" "ipv6_ranges x = ipv6_ranges x'"
          by (cases "insert_entries_to_db d' ?es") simp_all
        from Cons.IH[OF same] Inr x' Some False show ?thesis by (simp add: Let_def)
      qed
    qed
  qed
qed

lemma update_metadata_tables [simp]:
  "ipv4_ranges (update_metadata d k v) = ipv4_ranges d"
  "ipv6_ranges (update_metadata d k v) = ipv6_ranges d"
  by (simp_all add: update_metadata_def)

lemma build_table_same_tables:
  "ipv4_ranges (db_after (build_table download now d)) =
     ipv4_ranges (db_after (build_table download now' d')) \<and>
   ipv6_ranges (db_after (build_table download now d)) =
     ipv6_ranges (db_after (build_table download now' d')) \<and>
   isl (build_table download now d) = isl (build_table download now' d')"
proof -
  let ?a = "(setup_database d)\<lparr>ipv4_ranges := [], ipv6_ranges := []\<rparr>"
  let ?b = "(setup_database d')\<lparr>ipv4_ranges := [], ipv6_ranges := []\<rparr>"
  have "ipv4_ranges ?a = ipv4_ranges ?b" and "ipv6_ranges ?a = ipv6_ranges ?b" by simp_all
  from build_loop_same[OF this, of download rir_names 0 "[]"]
  show ?thesis
    by (auto simp: build_table_def db_after_def Let_def split: sum.splits prod.splits)
qed

lemma lookup_ip_tables:
  assumes "ipv4_ranges d = ipv4_ranges d'" and "ipv6_ranges d = ipv6_ranges d'"
  shows "lookup_ip d ip = lookup_ip d' ip"
proof -
  have 4: "lookup_ipv4 d = lookup_ipv4 d'"
    unfolding lookup_ipv4_def assms(1) ..
  have 6: "lookup_ipv6 d = lookup_ipv6 d'"
    unfolding lookup_ipv6_def assms(2) ..
  show ?thesis unfolding lookup_ip_def 4 6 ..
qed

text \<open>
  Claim C8. Two builds from the same registry data, whatever the databases they start
  from and the times they run at, leave databases with the same number of IPv4 ranges
  and of IPv6 ranges and the same answer of \<open>lookup_ip\<close> to every query text, and both
  return or both raise. This holds for a build that starts from the database the
  first build left.
\<close>

theorem build_table_idempotent:
  "length (ipv4_ranges (db_after (build_table download now d))) =
     length (ipv4_ranges (db_after (build_table download now' d'))) \<and>
   length (ipv6_ranges (db_after (build_table download now d))) =
     length (ipv6_ranges (db_after (build_table download now' d'))) \<and>
   lookup_ip (db_after (build_table download now d)) ip =
     lookup_ip (db_after (build_table download now' d')) ip \<and>
   isl (build_table download now d) = isl (build_table download now' d')"
  using build_table_same_tables[of download now d now' d']
    lookup_ip_tables[of "db_after (build_table download now d)"
                        "db_after (build_table download now' d')" ip]
  by simp

theorem build_table_idempotent_witness:
  "length (ipv4_ranges (db_after (build_table sample_download ''2024-01-01T00:00:00'' empty_db))) =
     length (ipv4_ranges (db_after (build_table sample_download ''2024-06-01T00:00:00''
        (db_after (build_table sample_download ''2024-01-01T00:00:00'' empty_db))))) \<and>
   length (ipv6_ranges (db_after (build_table sample_download ''2024-01-01T00:00:00'' empty_db))) =
     length (ipv6_ranges (db_after (build_table sample_download ''2024-06-01T00:00:00''
        (db_after (build_table sample_download ''2024-01-01T00:00:00'' empty_db))))) \<and>
   lookup_ip (db_after (build_table sample_download ''2024-01-01T00:00:00'' empty_db)) ''8.8.8.8'' =
     lookup_ip (db_after (build_table sample_download ''2024-06-01T00:00:00''
        (db_after (build_table sample_download ''2024-01-01T00:00:00'' empty_db)))) ''8.8.8.8'' \<and>
   isl (build_table sample_download ''2024-01-01T00:00:00'' empty_db) =
     isl (build_table sample_download ''2024-06-01T00:00:00''
        (db_after (build_table sample_download ''2024-01-01T00:00:00'' empty_db)))"
  by (rule build_table_idempotent)






end
